theory Spec2Isabelle
  imports Complex_Main
begin

section \<open>The wet section buffer counter: state, hardware and display\<close>

text \<open>
  The repository holds two scripts, \<^verbatim>\<open>wsbc_script.py\<close> and \<^verbatim>\<open>test_wsbc_script.py\<close>.
  Each polls four digital inputs from a periodic callback \<^verbatim>\<open>read_inputs_and_update\<close>
  that works on module-level globals. The globals become a record that is passed in
  and returned; the hardware read, the clock and the display are made explicit:
  the hardware is a function from a channel number to a value or an exception, the
  clock value is an argument, and the calls made on the display objects together
  with the delay handed to \<^verbatim>\<open>main.after\<close> are returned as the effects of the tick.
\<close>

text \<open>
  The globals both scripts share (sums, previously displayed values, one held flag
  and one release timer for each sensor). Python integers are unbounded, hence \<open>int\<close>.
\<close>

record globals =
  sum_ohb :: int
  sum_ws :: int
  prev_total :: int
  prev_ohb :: int
  prev_ws :: int
  sig_ohb_add_detected :: bool
  sig_ohb_sub_detected :: bool
  sig_ws_add_detected :: bool
  sig_ws_sub_detected :: bool
  timer_ohb_add :: int
  timer_ohb_sub :: int
  timer_ws_add :: int
  timer_ws_sub :: int

text \<open>
  \<^verbatim>\<open>wsbc_script.py\<close> declares two more globals, \<^verbatim>\<open>count_ohb\<close> and \<^verbatim>\<open>count_ws\<close>. Its
  callback lists them as global and never reads or assigns them. All functions below
  are written over the record scheme, so they apply to both records alike.
\<close>

record wsbc_globals = globals +
  count_ohb :: int
  count_ws :: int

definition initial_globals :: globals where
  "initial_globals =
     \<lparr> sum_ohb = 0, sum_ws = 0,
       prev_total = - 1, prev_ohb = - 1, prev_ws = - 1,
       sig_ohb_add_detected = False, sig_ohb_sub_detected = False,
       sig_ws_add_detected = False, sig_ws_sub_detected = False,
       timer_ohb_add = 0, timer_ohb_sub = 0, timer_ws_add = 0, timer_ws_sub = 0 \<rparr>"

definition initial_wsbc_globals :: wsbc_globals where
  "initial_wsbc_globals =
     \<lparr> sum_ohb = 0, sum_ws = 0,
       prev_total = - 1, prev_ohb = - 1, prev_ws = - 1,
       sig_ohb_add_detected = False, sig_ohb_sub_detected = False,
       sig_ws_add_detected = False, sig_ws_sub_detected = False,
       timer_ohb_add = 0, timer_ohb_sub = 0, timer_ws_add = 0, timer_ws_sub = 0,
       count_ohb = 0, count_ws = 0 \<rparr>"

text \<open>Configuration constants. Every script has a poll interval; the delays differ.\<close>

record poll_config =
  POLL_INTERVAL_MS :: int

record config = poll_config +
  SENSOR_DELAY :: int

record test_config = poll_config +
  OHB_ADD_DELAY_MS :: int
  OHB_SUB_DELAY_MS :: int
  WS_ADD_DELAY_MS :: int
  WS_SUB_DELAY_MS :: int

definition default_config :: config where
  "default_config = \<lparr> POLL_INTERVAL_MS = 10, SENSOR_DELAY = 1000 \<rparr>"

definition default_test_config :: test_config where
  "default_test_config =
     \<lparr> POLL_INTERVAL_MS = 10,
       OHB_ADD_DELAY_MS = 1000, OHB_SUB_DELAY_MS = 1000,
       WS_ADD_DELAY_MS = 1000, WS_SUB_DELAY_MS = 1000 \<rparr>"

definition CHANNEL_OHB_ADD :: int where "CHANNEL_OHB_ADD = 1"
definition CHANNEL_OHB_SUB :: int where "CHANNEL_OHB_SUB = 2"
definition CHANNEL_WS_ADD :: int where "CHANNEL_WS_ADD = 3"
definition CHANNEL_WS_SUB :: int where "CHANNEL_WS_SUB = 4"

text \<open>
  \<^verbatim>\<open>rel.get_in(channel)\<close> returns an integer or raises. The callback catches every
  \<^verbatim>\<open>Exception\<close> alike, so one error value is enough.
\<close>

datatype hw_error = Exception

type_synonym hardware = "int \<Rightarrow> hw_error + int"

text \<open>
  The \<^verbatim>\<open>try\<close> block: four reads in channel order; the first one that raises leaves
  the block.
\<close>

definition read_channels :: "hardware \<Rightarrow> hw_error + (int \<times> int \<times> int \<times> int)" where
  "read_channels rel =
     (case rel CHANNEL_OHB_ADD of Inl e \<Rightarrow> Inl e | Inr s1 \<Rightarrow>
      (case rel CHANNEL_OHB_SUB of Inl e \<Rightarrow> Inl e | Inr s2 \<Rightarrow>
       (case rel CHANNEL_WS_ADD of Inl e \<Rightarrow> Inl e | Inr s3 \<Rightarrow>
        (case rel CHANNEL_WS_SUB of Inl e \<Rightarrow> Inl e | Inr s4 \<Rightarrow>
           Inr (s1, s2, s3, s4)))))"

text \<open>
  The calls on the display objects. \<^verbatim>\<open>graph_panel.update_series\<close> exists in
  \<^verbatim>\<open>test_wsbc_script.py\<close> only; its timestamp is a second reading of the clock,
  in seconds.
\<close>

datatype ui_call =
    Total_set_value int
  | Ohb_set_value int
  | Ws_set_value int
  | Graph_update_series int int real

record effects =
  ui_calls :: "ui_call list"
  after_ms :: int

section \<open>The four sensor blocks\<close>

text \<open>
  Each block of the callback is a transformer of the globals. The delay it compares
  against is an argument: \<^verbatim>\<open>SENSOR_DELAY\<close> in \<^verbatim>\<open>wsbc_script.py\<close>, the sensor's own
  constant in \<^verbatim>\<open>test_wsbc_script.py\<close>.
\<close>

definition ohb_add_block :: "int \<Rightarrow> int \<Rightarrow> int \<Rightarrow> 'a globals_scheme \<Rightarrow> 'a globals_scheme" where
  "ohb_add_block delay s1 now_ms st =
     (if s1 = 1 \<and> \<not> sig_ohb_add_detected st then
        (let st = st\<lparr>sig_ohb_add_detected := True\<rparr> in
         if now_ms - timer_ohb_add st \<ge> delay then st\<lparr>sum_ohb := sum_ohb st + 1\<rparr> else st)
      else if s1 \<noteq> 1 \<and> sig_ohb_add_detected st then
        (let st = st\<lparr>timer_ohb_add := now_ms\<rparr> in st\<lparr>sig_ohb_add_detected := False\<rparr>)
      else st)"

definition ohb_sub_block :: "int \<Rightarrow> int \<Rightarrow> int \<Rightarrow> 'a globals_scheme \<Rightarrow> 'a globals_scheme" where
  "ohb_sub_block delay s2 now_ms st =
     (if s2 = 1 \<and> \<not> sig_ohb_sub_detected st then
        (let st = st\<lparr>sig_ohb_sub_detected := True\<rparr> in
         if now_ms - timer_ohb_sub st \<ge> delay then
           (if sum_ohb st > 0 then st\<lparr>sum_ohb := sum_ohb st - 1\<rparr> else st)
         else st)
      else if s2 \<noteq> 1 \<and> sig_ohb_sub_detected st then
        (let st = st\<lparr>timer_ohb_sub := now_ms\<rparr> in st\<lparr>sig_ohb_sub_detected := False\<rparr>)
      else st)"

definition ws_add_block :: "int \<Rightarrow> int \<Rightarrow> int \<Rightarrow> 'a globals_scheme \<Rightarrow> 'a globals_scheme" where
  "ws_add_block delay s3 now_ms st =
     (if s3 = 1 \<and> \<not> sig_ws_add_detected st then
        (let st = st\<lparr>sig_ws_add_detected := True\<rparr> in
         if now_ms - timer_ws_add st \<ge> delay then st\<lparr>sum_ws := sum_ws st + 1\<rparr> else st)
      else if s3 \<noteq> 1 \<and> sig_ws_add_detected st then
        (let st = st\<lparr>timer_ws_add := now_ms\<rparr> in st\<lparr>sig_ws_add_detected := False\<rparr>)
      else st)"

definition ws_sub_block :: "int \<Rightarrow> int \<Rightarrow> int \<Rightarrow> 'a globals_scheme \<Rightarrow> 'a globals_scheme" where
  "ws_sub_block delay s4 now_ms st =
     (if s4 = 1 \<and> \<not> sig_ws_sub_detected st then
        (let st = st\<lparr>sig_ws_sub_detected := True\<rparr> in
         if now_ms - timer_ws_sub st \<ge> delay then
           (if sum_ws st > 0 then st\<lparr>sum_ws := sum_ws st - 1\<rparr> else st)
         else st)
      else if s4 \<noteq> 1 \<and> sig_ws_sub_detected st then
        (let st = st\<lparr>timer_ws_sub := now_ms\<rparr> in st\<lparr>sig_ws_sub_detected := False\<rparr>)
      else st)"

text \<open>The same four blocks as they stand in \<^verbatim>\<open>test_wsbc_script.py\<close>.\<close>

definition test_ohb_add_block :: "int \<Rightarrow> int \<Rightarrow> int \<Rightarrow> 'a globals_scheme \<Rightarrow> 'a globals_scheme" where
  "test_ohb_add_block delay s1 now_ms st =
     (if s1 = 1 \<and> \<not> sig_ohb_add_detected st then
        (let st = st\<lparr>sig_ohb_add_detected := True\<rparr> in
         if now_ms - timer_ohb_add st \<ge> delay then st\<lparr>sum_ohb := sum_ohb st + 1\<rparr> else st)
      else if s1 \<noteq> 1 \<and> sig_ohb_add_detected st then
        (let st = st\<lparr>timer_ohb_add := now_ms\<rparr> in st\<lparr>sig_ohb_add_detected := False\<rparr>)
      else st)"

definition test_ohb_sub_block :: "int \<Rightarrow> int \<Rightarrow> int \<Rightarrow> 'a globals_scheme \<Rightarrow> 'a globals_scheme" where
  "test_ohb_sub_block delay s2 now_ms st =
     (if s2 = 1 \<and> \<not> sig_ohb_sub_detected st then
        (let st = st\<lparr>sig_ohb_sub_detected := True\<rparr> in
         if now_ms - timer_ohb_sub st \<ge> delay then
           (if sum_ohb st > 0 then st\<lparr>sum_ohb := sum_ohb st - 1\<rparr> else st)
         else st)
      else if s2 \<noteq> 1 \<and> sig_ohb_sub_detected st then
        (let st = st\<lparr>timer_ohb_sub := now_ms\<rparr> in st\<lparr>sig_ohb_sub_detected := False\<rparr>)
      else st)"

definition test_ws_add_block :: "int \<Rightarrow> int \<Rightarrow> int \<Rightarrow> 'a globals_scheme \<Rightarrow> 'a globals_scheme" where
  "test_ws_add_block delay s3 now_ms st =
     (if s3 = 1 \<and> \<not> sig_ws_add_detected st then
        (let st = st\<lparr>sig_ws_add_detected := True\<rparr> in
         if now_ms - timer_ws_add st \<ge> delay then st\<lparr>sum_ws := sum_ws st + 1\<rparr> else st)
      else if s3 \<noteq> 1 \<and> sig_ws_add_detected st then
        (let st = st\<lparr>timer_ws_add := now_ms\<rparr> in st\<lparr>sig_ws_add_detected := False\<rparr>)
      else st)"

definition test_ws_sub_block :: "int \<Rightarrow> int \<Rightarrow> int \<Rightarrow> 'a globals_scheme \<Rightarrow> 'a globals_scheme" where
  "test_ws_sub_block delay s4 now_ms st =
     (if s4 = 1 \<and> \<not> sig_ws_sub_detected st then
        (let st = st\<lparr>sig_ws_sub_detected := True\<rparr> in
         if now_ms - timer_ws_sub st \<ge> delay then
           (if sum_ws st > 0 then st\<lparr>sum_ws := sum_ws st - 1\<rparr> else st)
         else st)
      else if s4 \<noteq> 1 \<and> sig_ws_sub_detected st then
        (let st = st\<lparr>timer_ws_sub := now_ms\<rparr> in st\<lparr>sig_ws_sub_detected := False\<rparr>)
      else st)"

section \<open>The display update and the callback\<close>

text \<open>
  The three comparisons against the previously displayed values, in source order.
  The result carries the calls made and, for \<^verbatim>\<open>test_wsbc_script.py\<close>, whether any
  of the three branches ran (\<^verbatim>\<open>counts_changed\<close>).
\<close>

definition update_ui :: "'a globals_scheme \<Rightarrow> 'a globals_scheme \<times> ui_call list \<times> bool" where
  "update_ui st =
     (let total = sum_ohb st + sum_ws st;
          counts_changed = False;
          (st, calls, counts_changed) =
            (if total \<noteq> prev_total st
             then (st\<lparr>prev_total := total\<rparr>, [Total_set_value total], True)
             else (st, [], counts_changed));
          (st, calls, counts_changed) =
            (if sum_ohb st \<noteq> prev_ohb st
             then (st\<lparr>prev_ohb := sum_ohb st\<rparr>, calls @ [Ohb_set_value (sum_ohb st)], True)
             else (st, calls, counts_changed));
          (st, calls, counts_changed) =
            (if sum_ws st \<noteq> prev_ws st
             then (st\<lparr>prev_ws := sum_ws st\<rparr>, calls @ [Ws_set_value (sum_ws st)], True)
             else (st, calls, counts_changed))
      in (st, calls, counts_changed))"

text \<open>\<^verbatim>\<open>read_inputs_and_update\<close> of \<^verbatim>\<open>wsbc_script.py\<close>.\<close>

definition read_inputs_and_update ::
    "config \<Rightarrow> hardware \<Rightarrow> int \<Rightarrow> 'a globals_scheme \<Rightarrow> 'a globals_scheme \<times> effects" where
  "read_inputs_and_update cfg rel now_ms st =
     (case read_channels rel of
        Inl e \<Rightarrow> (st, \<lparr> ui_calls = [], after_ms = max 200 (POLL_INTERVAL_MS cfg) \<rparr>)
      | Inr (s1, s2, s3, s4) \<Rightarrow>
          (let st = ohb_add_block (SENSOR_DELAY cfg) s1 now_ms st;
               st = ohb_sub_block (SENSOR_DELAY cfg) s2 now_ms st;
               st = ws_add_block (SENSOR_DELAY cfg) s3 now_ms st;
               st = ws_sub_block (SENSOR_DELAY cfg) s4 now_ms st;
               (st, calls, counts_changed) = update_ui st
           in (st, \<lparr> ui_calls = calls, after_ms = POLL_INTERVAL_MS cfg \<rparr>)))"

text \<open>
  \<^verbatim>\<open>read_inputs_and_update\<close> of \<^verbatim>\<open>test_wsbc_script.py\<close>: a delay for each sensor, and
  the trend graph is fed when any displayed value changed.
\<close>

definition test_read_inputs_and_update ::
    "test_config \<Rightarrow> hardware \<Rightarrow> int \<Rightarrow> real \<Rightarrow> 'a globals_scheme \<Rightarrow> 'a globals_scheme \<times> effects" where
  "test_read_inputs_and_update cfg rel now_ms now_ts st =
     (case read_channels rel of
        Inl e \<Rightarrow> (st, \<lparr> ui_calls = [], after_ms = max 200 (POLL_INTERVAL_MS cfg) \<rparr>)
      | Inr (s1, s2, s3, s4) \<Rightarrow>
          (let st = test_ohb_add_block (OHB_ADD_DELAY_MS cfg) s1 now_ms st;
               st = test_ohb_sub_block (OHB_SUB_DELAY_MS cfg) s2 now_ms st;
               st = test_ws_add_block (WS_ADD_DELAY_MS cfg) s3 now_ms st;
               st = test_ws_sub_block (WS_SUB_DELAY_MS cfg) s4 now_ms st;
               (st, calls, counts_changed) = update_ui st;
               calls = (if counts_changed
                        then calls @ [Graph_update_series (sum_ohb st) (sum_ws st) now_ts]
                        else calls)
           in (st, \<lparr> ui_calls = calls, after_ms = POLL_INTERVAL_MS cfg \<rparr>)))"

text \<open>A run of the scheduler: one hardware snapshot and one clock value for each tick.\<close>

fun run_ticks :: "config \<Rightarrow> (hardware \<times> int) list \<Rightarrow> 'a globals_scheme \<Rightarrow> 'a globals_scheme" where
  "run_ticks cfg [] st = st"
| "run_ticks cfg ((rel, now_ms) # ticks) st =
     run_ticks cfg ticks (fst (read_inputs_and_update cfg rel now_ms st))"

section \<open>A view of one channel\<close>

text \<open>
  The four blocks have the same shape. To state a property once for every channel,
  the blocks and the globals they work on are indexed by the channel.
\<close>

datatype channel = OHB_ADD | OHB_SUB | WS_ADD | WS_SUB

fun block :: "channel \<Rightarrow> int \<Rightarrow> int \<Rightarrow> int \<Rightarrow> 'a globals_scheme \<Rightarrow> 'a globals_scheme" where
  "block OHB_ADD = ohb_add_block"
| "block OHB_SUB = ohb_sub_block"
| "block WS_ADD = ws_add_block"
| "block WS_SUB = ws_sub_block"

fun detected :: "channel \<Rightarrow> 'a globals_scheme \<Rightarrow> bool" where
  "detected OHB_ADD st = sig_ohb_add_detected st"
| "detected OHB_SUB st = sig_ohb_sub_detected st"
| "detected WS_ADD st = sig_ws_add_detected st"
| "detected WS_SUB st = sig_ws_sub_detected st"

fun timer :: "channel \<Rightarrow> 'a globals_scheme \<Rightarrow> int" where
  "timer OHB_ADD st = timer_ohb_add st"
| "timer OHB_SUB st = timer_ohb_sub st"
| "timer WS_ADD st = timer_ws_add st"
| "timer WS_SUB st = timer_ws_sub st"

fun group_sum :: "channel \<Rightarrow> 'a globals_scheme \<Rightarrow> int" where
  "group_sum OHB_ADD st = sum_ohb st"
| "group_sum OHB_SUB st = sum_ohb st"
| "group_sum WS_ADD st = sum_ws st"
| "group_sum WS_SUB st = sum_ws st"

text \<open>What a counted activation of the channel does to its sum.\<close>

fun counted :: "channel \<Rightarrow> int \<Rightarrow> int" where
  "counted OHB_ADD n = n + 1"
| "counted OHB_SUB n = (if n > 0 then n - 1 else n)"
| "counted WS_ADD n = n + 1"
| "counted WS_SUB n = (if n > 0 then n - 1 else n)"

text \<open>Feeding one channel a sequence of samples, each with its clock value.\<close>

fun feed :: "channel \<Rightarrow> int \<Rightarrow> (int \<times> int) list \<Rightarrow> 'a globals_scheme \<Rightarrow> 'a globals_scheme" where
  "feed c delay [] st = st"
| "feed c delay ((s, now_ms) # samples) st = feed c delay samples (block c delay s now_ms st)"

section \<open>Fixtures and vocabulary for the statements\<close>

text \<open>
  Two hardware snapshots: one on which the four inputs read the given values (any
  other channel number is rejected), and one on which every read raises.
\<close>

definition hw_reads :: "int \<Rightarrow> int \<Rightarrow> int \<Rightarrow> int \<Rightarrow> hardware" where
  "hw_reads s1 s2 s3 s4 ch =
     (if ch = CHANNEL_OHB_ADD then Inr s1
      else if ch = CHANNEL_OHB_SUB then Inr s2
      else if ch = CHANNEL_WS_ADD then Inr s3
      else if ch = CHANNEL_WS_SUB then Inr s4
      else Inl Exception)"

definition hw_fails :: hardware where
  "hw_fails ch = Inl Exception"

text \<open>
  The values last handed to the display (the \<^verbatim>\<open>prev_*\<close> globals), the values a
  tick would display, and the state in which the two agree.
\<close>

definition displayed :: "'a globals_scheme \<Rightarrow> int \<times> int \<times> int" where
  "displayed st = (prev_total st, prev_ohb st, prev_ws st)"

definition triple :: "'a globals_scheme \<Rightarrow> int \<times> int \<times> int" where
  "triple st = (sum_ohb st + sum_ws st, sum_ohb st, sum_ws st)"

definition reported :: "'a globals_scheme \<Rightarrow> bool" where
  "reported st = (displayed st = triple st)"

text \<open>
  Change-only notification as the specification words it: one \<^verbatim>\<open>set_value\<close> for
  each of total, overhead buffer and wet section whose new value differs from the old
  one, in that order, and nothing for the others.
\<close>

definition changed_values :: "int \<times> int \<times> int \<Rightarrow> int \<times> int \<times> int \<Rightarrow> ui_call list" where
  "changed_values old new =
     (case (old, new) of ((old_total, old_ohb, old_ws), (new_total, new_ohb, new_ws)) \<Rightarrow>
        (if new_total \<noteq> old_total then [Total_set_value new_total] else []) @
        (if new_ohb \<noteq> old_ohb then [Ohb_set_value new_ohb] else []) @
        (if new_ws \<noteq> old_ws then [Ws_set_value new_ws] else []))"

text \<open>The globals after the four blocks of one tick, in the order of the source.\<close>

definition after_blocks ::
    "int \<Rightarrow> int \<times> int \<times> int \<times> int \<Rightarrow> int \<Rightarrow> 'a globals_scheme \<Rightarrow> 'a globals_scheme" where
  "after_blocks delay ss now_ms st =
     (case ss of (s1, s2, s3, s4) \<Rightarrow>
        ws_sub_block delay s4 now_ms (ws_add_block delay s3 now_ms
          (ohb_sub_block delay s2 now_ms (ohb_add_block delay s1 now_ms st))))"


lemmas block_defs = ohb_add_block_def ohb_sub_block_def ws_add_block_def ws_sub_block_def

lemmas channel_defs =
  CHANNEL_OHB_ADD_def CHANNEL_OHB_SUB_def CHANNEL_WS_ADD_def CHANNEL_WS_SUB_def

section \<open>Properties of one block\<close>

lemma detected_block: "detected c (block c delay s now_ms st) = (s = 1)"
  by (cases c) (auto simp: block_defs Let_def)

lemma timer_block:
  "timer c (block c delay s now_ms st) =
     (if s \<noteq> 1 \<and> detected c st then now_ms else timer c st)"
  by (cases c) (auto simp: block_defs Let_def)

lemma group_sum_block:
  "group_sum c (block c delay s now_ms st) =
     (if s = 1 \<and> \<not> detected c st \<and> delay \<le> now_ms - timer c st
      then counted c (group_sum c st) else group_sum c st)"
  by (cases c) (auto simp: block_defs Let_def)

lemma block_other_channel:
  "c' \<noteq> c \<Longrightarrow> detected c' (block c delay s now_ms st) = detected c' st
              \<and> timer c' (block c delay s now_ms st) = timer c' st"
  by (cases c; cases c') (auto simp: block_defs Let_def)

lemma block_displayed:
  "displayed (ohb_add_block delay s now_ms st) = displayed st"
  "displayed (ohb_sub_block delay s now_ms st) = displayed st"
  "displayed (ws_add_block delay s now_ms st) = displayed st"
  "displayed (ws_sub_block delay s now_ms st) = displayed st"
  by (auto simp: block_defs Let_def displayed_def)

lemma block_other_sum:
  "sum_ws (ohb_add_block delay s now_ms st) = sum_ws st"
  "sum_ws (ohb_sub_block delay s now_ms st) = sum_ws st"
  "sum_ohb (ws_add_block delay s now_ms st) = sum_ohb st"
  "sum_ohb (ws_sub_block delay s now_ms st) = sum_ohb st"
  by (auto simp: block_defs Let_def)

lemma blocks_nonneg:
  "0 \<le> sum_ohb st \<Longrightarrow> 0 \<le> sum_ohb (ohb_add_block delay s now_ms st)"
  "0 \<le> sum_ohb st \<Longrightarrow> 0 \<le> sum_ohb (ohb_sub_block delay s now_ms st)"
  "0 \<le> sum_ws st \<Longrightarrow> 0 \<le> sum_ws (ws_add_block delay s now_ms st)"
  "0 \<le> sum_ws st \<Longrightarrow> 0 \<le> sum_ws (ws_sub_block delay s now_ms st)"
  by (auto simp: block_defs Let_def)

lemma block_flags:
  "sig_ohb_add_detected (ohb_add_block delay s now_ms st) = (s = 1)"
  "sig_ohb_add_detected (ohb_sub_block delay s now_ms st) = sig_ohb_add_detected st"
  "sig_ohb_add_detected (ws_add_block delay s now_ms st) = sig_ohb_add_detected st"
  "sig_ohb_add_detected (ws_sub_block delay s now_ms st) = sig_ohb_add_detected st"
  "sig_ohb_sub_detected (ohb_sub_block delay s now_ms st) = (s = 1)"
  "sig_ohb_sub_detected (ws_add_block delay s now_ms st) = sig_ohb_sub_detected st"
  "sig_ohb_sub_detected (ws_sub_block delay s now_ms st) = sig_ohb_sub_detected st"
  "sig_ws_add_detected (ws_add_block delay s now_ms st) = (s = 1)"
  "sig_ws_add_detected (ws_sub_block delay s now_ms st) = sig_ws_add_detected st"
  "sig_ws_sub_detected (ws_sub_block delay s now_ms st) = (s = 1)"
  by (auto simp: block_defs Let_def)

lemma test_blocks_same:
  "test_ohb_add_block = ohb_add_block"
  "test_ohb_sub_block = ohb_sub_block"
  "test_ws_add_block = ws_add_block"
  "test_ws_sub_block = ws_sub_block"
  by (intro ext, simp add: block_defs test_ohb_add_block_def test_ohb_sub_block_def
        test_ws_add_block_def test_ws_sub_block_def)+

lemma feed_held:
  "detected c st \<Longrightarrow> list_all (\<lambda>(s, t). s = 1) samples \<Longrightarrow>
     group_sum c (feed c delay samples st) = group_sum c st
     \<and> detected c (feed c delay samples st)"
proof (induction samples arbitrary: st)
  case Nil
  then show ?case by simp
next
  case (Cons x xs)
  obtain s t where x: "x = (s, t)" by (cases x)
  with Cons.prems have s: "s = 1" and rest: "list_all (\<lambda>(s, t). s = 1) xs" by auto
  have d: "detected c (block c delay s t st)" by (simp add: detected_block s)
  have g: "group_sum c (block c delay s t st) = group_sum c st"
    using Cons.prems(1) by (simp add: group_sum_block)
  from Cons.IH [OF d rest] g show ?case by (simp add: x)
qed

lemma feed_append: "feed c delay (xs @ ys) st = feed c delay ys (feed c delay xs st)"
  by (induction xs arbitrary: st) auto

section \<open>Properties of the display update and of one tick\<close>

lemma update_ui_state:
  "fst (update_ui st) =
     st\<lparr>prev_total := sum_ohb st + sum_ws st, prev_ohb := sum_ohb st, prev_ws := sum_ws st\<rparr>"
  by (simp add: update_ui_def Let_def)

lemma update_ui_calls:
  "fst (snd (update_ui st)) = changed_values (displayed st) (triple st)"
  by (simp add: update_ui_def Let_def changed_values_def displayed_def triple_def)

lemma update_ui_changed:
  "snd (snd (update_ui st)) = (displayed st \<noteq> triple st)"
  by (auto simp add: update_ui_def Let_def displayed_def triple_def)

lemma read_channels_fails:
  "isl (read_channels rel) =
     (isl (rel CHANNEL_OHB_ADD) \<or> isl (rel CHANNEL_OHB_SUB)
      \<or> isl (rel CHANNEL_WS_ADD) \<or> isl (rel CHANNEL_WS_SUB))"
  by (auto simp: read_channels_def split: sum.splits)

lemma read_channels_ok:
  "(read_channels rel = Inr (s1, s2, s3, s4)) =
     (rel CHANNEL_OHB_ADD = Inr s1 \<and> rel CHANNEL_OHB_SUB = Inr s2
      \<and> rel CHANNEL_WS_ADD = Inr s3 \<and> rel CHANNEL_WS_SUB = Inr s4)"
  by (auto simp: read_channels_def split: sum.splits)

lemma read_channels_hw_reads: "read_channels (hw_reads s1 s2 s3 s4) = Inr (s1, s2, s3, s4)"
  by (simp add: read_channels_ok hw_reads_def channel_defs)

lemma read_channels_hw_fails: "read_channels hw_fails = Inl Exception"
  by (simp add: read_channels_def hw_fails_def)

lemma tick_failed:
  "isl (read_channels rel) \<Longrightarrow>
     read_inputs_and_update cfg rel now_ms st =
       (st, \<lparr> ui_calls = [], after_ms = max 200 (POLL_INTERVAL_MS cfg) \<rparr>)"
  by (auto simp: read_inputs_and_update_def split: sum.splits)

lemma test_tick_failed:
  "isl (read_channels rel) \<Longrightarrow>
     test_read_inputs_and_update cfg rel now_ms now_ts st =
       (st, \<lparr> ui_calls = [], after_ms = max 200 (POLL_INTERVAL_MS cfg) \<rparr>)"
  by (auto simp: test_read_inputs_and_update_def split: sum.splits)

lemma tick_ok:
  "read_channels rel = Inr ss \<Longrightarrow>
     read_inputs_and_update cfg rel now_ms st =
       (fst (update_ui (after_blocks (SENSOR_DELAY cfg) ss now_ms st)),
        \<lparr> ui_calls = fst (snd (update_ui (after_blocks (SENSOR_DELAY cfg) ss now_ms st))),
          after_ms = POLL_INTERVAL_MS cfg \<rparr>)"
  by (cases ss)
     (simp add: read_inputs_and_update_def after_blocks_def Let_def split: prod.splits)

lemma update_ui_eq:
  "update_ui st =
     (st\<lparr>prev_total := sum_ohb st + sum_ws st, prev_ohb := sum_ohb st, prev_ws := sum_ws st\<rparr>,
      changed_values (displayed st) (triple st), displayed st \<noteq> triple st)"
  by (simp add: prod_eq_iff update_ui_state update_ui_calls update_ui_changed)

lemma update_ui_triple: "triple (fst (update_ui st)) = triple st"
  by (simp add: update_ui_state triple_def)

lemma update_ui_reported: "reported (fst (update_ui st))"
  by (simp add: update_ui_state reported_def triple_def displayed_def)

lemma update_ui_frame:
  "sum_ohb (fst (update_ui st)) = sum_ohb st"
  "sum_ws (fst (update_ui st)) = sum_ws st"
  "sig_ohb_add_detected (fst (update_ui st)) = sig_ohb_add_detected st"
  "sig_ohb_sub_detected (fst (update_ui st)) = sig_ohb_sub_detected st"
  "sig_ws_add_detected (fst (update_ui st)) = sig_ws_add_detected st"
  "sig_ws_sub_detected (fst (update_ui st)) = sig_ws_sub_detected st"
  by (simp_all add: update_ui_state)

lemma changed_values_same: "changed_values x x = []"
  by (cases x) (simp add: changed_values_def)

lemma changed_values_Nil: "(changed_values x y = []) = (x = y)"
  by (cases x; cases y) (auto simp add: changed_values_def)


lemma after_blocks_displayed: "displayed (after_blocks delay ss now_ms st) = displayed st"
  by (cases ss) (simp add: after_blocks_def block_displayed)

lemma after_blocks_flags:
  "sig_ohb_add_detected (after_blocks delay (s1, s2, s3, s4) now_ms st) = (s1 = 1)"
  "sig_ohb_sub_detected (after_blocks delay (s1, s2, s3, s4) now_ms st) = (s2 = 1)"
  "sig_ws_add_detected (after_blocks delay (s1, s2, s3, s4) now_ms st) = (s3 = 1)"
  "sig_ws_sub_detected (after_blocks delay (s1, s2, s3, s4) now_ms st) = (s4 = 1)"
  by (simp_all add: after_blocks_def block_flags)

lemma after_blocks_nonneg:
  "0 \<le> sum_ohb st \<Longrightarrow> 0 \<le> sum_ohb (after_blocks delay ss now_ms st)"
  "0 \<le> sum_ws st \<Longrightarrow> 0 \<le> sum_ws (after_blocks delay ss now_ms st)"
  by (cases ss, simp add: after_blocks_def block_other_sum blocks_nonneg)+

lemma test_tick_ok:
  "read_channels rel = Inr (s1, s2, s3, s4) \<Longrightarrow>
     test_read_inputs_and_update cfg rel now_ms now_ts st =
       (let st4 = ws_sub_block (WS_SUB_DELAY_MS cfg) s4 now_ms
                   (ws_add_block (WS_ADD_DELAY_MS cfg) s3 now_ms
                     (ohb_sub_block (OHB_SUB_DELAY_MS cfg) s2 now_ms
                       (ohb_add_block (OHB_ADD_DELAY_MS cfg) s1 now_ms st)))
        in (fst (update_ui st4),
            \<lparr> ui_calls = changed_values (displayed st4) (triple st4) @
                  (if displayed st4 \<noteq> triple st4
                   then [Graph_update_series (sum_ohb st4) (sum_ws st4) now_ts] else []),
              after_ms = POLL_INTERVAL_MS cfg \<rparr>))"
  by (simp add: test_read_inputs_and_update_def test_blocks_same Let_def update_ui_eq)

lemma tick_nonneg:
  "0 \<le> sum_ohb st \<Longrightarrow> 0 \<le> sum_ohb (fst (read_inputs_and_update cfg rel now_ms st))"
  "0 \<le> sum_ws st \<Longrightarrow> 0 \<le> sum_ws (fst (read_inputs_and_update cfg rel now_ms st))"
proof -
  assume "0 \<le> sum_ohb st"
  then show "0 \<le> sum_ohb (fst (read_inputs_and_update cfg rel now_ms st))"
    by (cases "read_channels rel")
       (simp_all add: tick_failed tick_ok update_ui_frame after_blocks_nonneg)
next
  assume "0 \<le> sum_ws st"
  then show "0 \<le> sum_ws (fst (read_inputs_and_update cfg rel now_ms st))"
    by (cases "read_channels rel")
       (simp_all add: tick_failed tick_ok update_ui_frame after_blocks_nonneg)
qed

lemma run_ticks_nonneg:
  "0 \<le> sum_ohb st \<Longrightarrow> 0 \<le> sum_ws st \<Longrightarrow>
     0 \<le> sum_ohb (run_ticks cfg ticks st) \<and> 0 \<le> sum_ws (run_ticks cfg ticks st)"
proof (induction ticks arbitrary: st)
  case Nil
  then show ?case by simp
next
  case (Cons t ticks)
  obtain rel now_ms where t: "t = (rel, now_ms)" by (cases t)
  show ?case
    using Cons.IH [OF tick_nonneg(1) [OF Cons.prems(1)] tick_nonneg(2) [OF Cons.prems(2)]]
    by (simp add: t)
qed

text \<open>
  Within a tick that read its inputs, every sensor's flag and timer come out as its
  own block alone leaves them, and every sum as its own two blocks leave it: the
  blocks of the other sensors do not touch them.
\<close>

lemma other_block_fields:
  "timer_ohb_add (ohb_sub_block delay s now_ms st) = timer_ohb_add st"
  "timer_ohb_add (ws_add_block delay s now_ms st) = timer_ohb_add st"
  "timer_ohb_add (ws_sub_block delay s now_ms st) = timer_ohb_add st"
  "timer_ohb_sub (ohb_add_block delay s now_ms st) = timer_ohb_sub st"
  "timer_ohb_sub (ws_add_block delay s now_ms st) = timer_ohb_sub st"
  "timer_ohb_sub (ws_sub_block delay s now_ms st) = timer_ohb_sub st"
  "timer_ws_add (ohb_add_block delay s now_ms st) = timer_ws_add st"
  "timer_ws_add (ohb_sub_block delay s now_ms st) = timer_ws_add st"
  "timer_ws_add (ws_sub_block delay s now_ms st) = timer_ws_add st"
  "timer_ws_sub (ohb_add_block delay s now_ms st) = timer_ws_sub st"
  "timer_ws_sub (ohb_sub_block delay s now_ms st) = timer_ws_sub st"
  "timer_ws_sub (ws_add_block delay s now_ms st) = timer_ws_sub st"
  "sig_ohb_sub_detected (ohb_add_block delay s now_ms st) = sig_ohb_sub_detected st"
  "sig_ws_add_detected (ohb_add_block delay s now_ms st) = sig_ws_add_detected st"
  "sig_ws_add_detected (ohb_sub_block delay s now_ms st) = sig_ws_add_detected st"
  "sig_ws_sub_detected (ohb_add_block delay s now_ms st) = sig_ws_sub_detected st"
  "sig_ws_sub_detected (ohb_sub_block delay s now_ms st) = sig_ws_sub_detected st"
  "sig_ws_sub_detected (ws_add_block delay s now_ms st) = sig_ws_sub_detected st"
  by (auto simp: block_defs Let_def)

lemma ws_blocks_local:
  assumes "sum_ws st' = sum_ws st"
    and "sig_ws_add_detected st' = sig_ws_add_detected st"
    and "sig_ws_sub_detected st' = sig_ws_sub_detected st"
    and "timer_ws_add st' = timer_ws_add st"
    and "timer_ws_sub st' = timer_ws_sub st"
  shows "sum_ws (ws_sub_block delay s4 now_ms (ws_add_block delay s3 now_ms st'))
           = sum_ws (ws_sub_block delay s4 now_ms (ws_add_block delay s3 now_ms st))"
  using assms by (simp add: ws_add_block_def ws_sub_block_def Let_def)

lemma tick_channel_view:
  assumes "read_channels rel = Inr (s1, s2, s3, s4)"
  shows "timer_ohb_add (fst (read_inputs_and_update cfg rel now_ms st))
           = timer_ohb_add (ohb_add_block (SENSOR_DELAY cfg) s1 now_ms st)"
    and "timer_ohb_sub (fst (read_inputs_and_update cfg rel now_ms st))
           = timer_ohb_sub (ohb_sub_block (SENSOR_DELAY cfg) s2 now_ms st)"
    and "timer_ws_add (fst (read_inputs_and_update cfg rel now_ms st))
           = timer_ws_add (ws_add_block (SENSOR_DELAY cfg) s3 now_ms st)"
    and "timer_ws_sub (fst (read_inputs_and_update cfg rel now_ms st))
           = timer_ws_sub (ws_sub_block (SENSOR_DELAY cfg) s4 now_ms st)"
    and "sum_ohb (fst (read_inputs_and_update cfg rel now_ms st))
           = sum_ohb (ohb_sub_block (SENSOR_DELAY cfg) s2 now_ms
               (ohb_add_block (SENSOR_DELAY cfg) s1 now_ms st))"
    and "sum_ws (fst (read_inputs_and_update cfg rel now_ms st))
           = sum_ws (ws_sub_block (SENSOR_DELAY cfg) s4 now_ms
               (ws_add_block (SENSOR_DELAY cfg) s3 now_ms st))"
proof -
  let ?d = "SENSOR_DELAY cfg"
  let ?tick = "fst (read_inputs_and_update cfg rel now_ms st)"
  have t: "?tick = fst (update_ui (after_blocks ?d (s1, s2, s3, s4) now_ms st))"
    by (simp add: tick_ok [OF assms])
  show "timer_ohb_add ?tick = timer_ohb_add (ohb_add_block ?d s1 now_ms st)"
    by (simp add: t update_ui_state after_blocks_def other_block_fields)
  show "timer_ohb_sub ?tick = timer_ohb_sub (ohb_sub_block ?d s2 now_ms st)"
    by (simp add: t update_ui_state after_blocks_def other_block_fields
          ohb_sub_block_def Let_def)
  show "timer_ws_add ?tick = timer_ws_add (ws_add_block ?d s3 now_ms st)"
    by (simp add: t update_ui_state after_blocks_def other_block_fields
          ws_add_block_def Let_def)
  show "timer_ws_sub ?tick = timer_ws_sub (ws_sub_block ?d s4 now_ms st)"
    by (simp add: t update_ui_state after_blocks_def other_block_fields
          ws_sub_block_def Let_def)
  show "sum_ohb ?tick = sum_ohb (ohb_sub_block ?d s2 now_ms (ohb_add_block ?d s1 now_ms st))"
    by (simp add: t update_ui_state after_blocks_def block_other_sum)
  have "sum_ws (ws_sub_block ?d s4 now_ms (ws_add_block ?d s3 now_ms
            (ohb_sub_block ?d s2 now_ms (ohb_add_block ?d s1 now_ms st))))
          = sum_ws (ws_sub_block ?d s4 now_ms (ws_add_block ?d s3 now_ms st))"
    by (rule ws_blocks_local) (simp_all add: block_other_sum other_block_fields)
  then show "sum_ws ?tick = sum_ws (ws_sub_block ?d s4 now_ms (ws_add_block ?d s3 now_ms st))"
    by (simp add: t update_ui_state after_blocks_def)
qed

section \<open>The first activation of a fresh channel\<close>

text \<open>
  A channel that was never released has its timer at 0, and the rising edge is counted
  only when \<open>now_ms - 0\<close> has reached the delay. With the delay at 1000 and the clock at
  500 the first active sample on the overhead buffer add input sets the held flag and
  counts nothing, at the level of the block and of a whole tick from the initial
  globals.
\<close>

theorem first_activation_before_delay_not_counted:
  "\<not> sig_ohb_add_detected initial_globals \<and> timer_ohb_add initial_globals = 0
   \<and> sum_ohb (ohb_add_block 1000 1 500 initial_globals) = sum_ohb initial_globals
   \<and> sig_ohb_add_detected (ohb_add_block 1000 1 500 initial_globals)
   \<and> sum_ohb (fst (read_inputs_and_update default_config (hw_reads 1 0 0 0) 500
        initial_globals)) = 0"
  by (simp add: initial_globals_def default_config_def tick_ok read_channels_hw_reads
        after_blocks_def update_ui_frame block_defs Let_def)

text \<open>
  Claim C1, amended. For a channel that is not held and whose release timer is 0, the
  first active sample is counted exactly when \<open>now_ms\<close> has reached the channel's delay:
  an add channel then raises its sum by one, a subtract channel lowers its sum by one
  unless the sum is 0. Before that the sum is left alone. Either way the channel is
  held afterwards.
\<close>

theorem first_activation_counts_from_delay:
  assumes "\<not> detected c st" and "timer c st = 0"
  shows "group_sum c (block c delay 1 now_ms st) =
           (if delay \<le> now_ms then counted c (group_sum c st) else group_sum c st)
         \<and> detected c (block c delay 1 now_ms st)"
  using assms by (simp add: group_sum_block detected_block)

theorem first_activation_counts_from_delay_witness:
  "\<not> detected OHB_ADD initial_globals \<and> timer OHB_ADD initial_globals = 0
   \<and> group_sum OHB_ADD (block OHB_ADD 1000 1 1000 initial_globals) = 1
   \<and> group_sum OHB_ADD (block OHB_ADD 1000 1 999 initial_globals) = 0
   \<and> detected OHB_ADD (block OHB_ADD 1000 1 999 initial_globals)"
  using first_activation_counts_from_delay [of OHB_ADD initial_globals 1000 1000]
        first_activation_counts_from_delay [of OHB_ADD initial_globals 1000 999]
  by (simp add: initial_globals_def)

section \<open>The two scripts debounce alike\<close>



section \<open>A suppressed activation is never counted while held\<close>

text \<open>
  Claim C3. Let a channel be released with its timer at \<open>t0\<close>. An active sample at
  \<open>t1\<close> with \<open>t1 - t0\<close> below the delay leaves the channel's sum as it was, and so does
  every run of further active samples after it, whatever their clock values.
\<close>

theorem suppressed_activation_never_counted:
  assumes "\<not> detected c st" and "timer c st = t0" and "t1 - t0 < delay"
    and "list_all (\<lambda>(s, t). s = 1) later"
  shows "group_sum c (block c delay 1 t1 st) = group_sum c st
       \<and> group_sum c (feed c delay later (block c delay 1 t1 st)) = group_sum c st"
proof -
  let ?st1 = "block c delay 1 t1 st"
  have g: "group_sum c ?st1 = group_sum c st"
    using assms(1-3) by (simp add: group_sum_block)
  have d: "detected c ?st1" by (simp add: detected_block)
  from feed_held [OF d assms(4)] g show ?thesis by simp
qed

theorem suppressed_activation_never_counted_witness:
  "\<not> detected OHB_ADD (initial_globals\<lparr>sum_ohb := 1, timer_ohb_add := 20\<rparr>)
   \<and> timer OHB_ADD (initial_globals\<lparr>sum_ohb := 1, timer_ohb_add := 20\<rparr>) = 20
   \<and> (500::int) - 20 < 1000
   \<and> list_all (\<lambda>(s, t). s = 1) [(1::int, 510::int), (1, 1200)]
   \<and> group_sum OHB_ADD (block OHB_ADD 1000 1 500
        (initial_globals\<lparr>sum_ohb := 1, timer_ohb_add := 20\<rparr>)) = 1
   \<and> group_sum OHB_ADD (feed OHB_ADD 1000 [(1, 510), (1, 1200)] (block OHB_ADD 1000 1 500
        (initial_globals\<lparr>sum_ohb := 1, timer_ohb_add := 20\<rparr>))) = 1"
  using suppressed_activation_never_counted
          [of OHB_ADD "initial_globals\<lparr>sum_ohb := 1, timer_ohb_add := 20\<rparr>" 20 500 1000
              "[(1, 510), (1, 1200)]"]
  by (simp add: initial_globals_def)

section \<open>A failed read\<close>

text \<open>
  Claim C4. When any of the four reads raises, the tick returns the globals it was given,
  all of them, and makes no call on the display. This holds for both scripts.
\<close>

theorem read_failure_changes_nothing:
  assumes "isl (rel CHANNEL_OHB_ADD) \<or> isl (rel CHANNEL_OHB_SUB)
           \<or> isl (rel CHANNEL_WS_ADD) \<or> isl (rel CHANNEL_WS_SUB)"
  shows "fst (read_inputs_and_update cfg rel now_ms st) = st
       \<and> ui_calls (snd (read_inputs_and_update cfg rel now_ms st)) = []
       \<and> fst (test_read_inputs_and_update tcfg rel now_ms now_ts st) = st
       \<and> ui_calls (snd (test_read_inputs_and_update tcfg rel now_ms now_ts st)) = []"
proof -
  from assms have "isl (read_channels rel)" by (simp add: read_channels_fails)
  then show ?thesis by (simp add: tick_failed test_tick_failed)
qed

text \<open>The third read raises after two inputs have read active.\<close>

theorem read_failure_changes_nothing_witness:
  "isl (((hw_reads 1 1 1 1)(CHANNEL_WS_ADD := Inl Exception)) CHANNEL_WS_ADD)
   \<and> fst (read_inputs_and_update default_config
            ((hw_reads 1 1 1 1)(CHANNEL_WS_ADD := Inl Exception)) 5000 initial_wsbc_globals)
       = initial_wsbc_globals
   \<and> ui_calls (snd (read_inputs_and_update default_config
            ((hw_reads 1 1 1 1)(CHANNEL_WS_ADD := Inl Exception)) 5000 initial_wsbc_globals))
       = []"
  using read_failure_changes_nothing
          [of "(hw_reads 1 1 1 1)(CHANNEL_WS_ADD := Inl Exception)" default_config 5000
              initial_wsbc_globals]
  by simp

section \<open>One count for one hold\<close>

text \<open>
  Claim C5. From a released channel whose delay has passed at \<open>t1\<close>, the samples active,
  active, active, inactive count once: the first sample applies the channel's effect to
  its sum (plus one, or minus one floored at 0), and the sum stays there after each of
  the three samples that follow.
\<close>

theorem single_count_per_hold:
  assumes "\<not> detected c st" and "delay \<le> t1 - timer c st" and "s \<noteq> 1"
  shows "group_sum c (feed c delay [(1, t1)] st) = counted c (group_sum c st)
       \<and> group_sum c (feed c delay [(1, t1), (1, t2)] st) = counted c (group_sum c st)
       \<and> group_sum c (feed c delay [(1, t1), (1, t2), (1, t3)] st) = counted c (group_sum c st)
       \<and> group_sum c (feed c delay [(1, t1), (1, t2), (1, t3), (s, t4)] st)
           = counted c (group_sum c st)"
  using assms by (simp add: group_sum_block detected_block)

theorem single_count_per_hold_witness:
  "\<not> detected WS_ADD initial_globals \<and> (1000::int) \<le> 5000 - timer WS_ADD initial_globals
   \<and> (0::int) \<noteq> 1
   \<and> group_sum WS_ADD (feed WS_ADD 1000 [(1, 5000)] initial_globals) = 1
   \<and> group_sum WS_ADD (feed WS_ADD 1000 [(1, 5000), (1, 5010)] initial_globals) = 1
   \<and> group_sum WS_ADD (feed WS_ADD 1000 [(1, 5000), (1, 5010), (1, 7000)] initial_globals) = 1
   \<and> group_sum WS_ADD (feed WS_ADD 1000 [(1, 5000), (1, 5010), (1, 7000), (0, 7010)]
        initial_globals) = 1"
  using single_count_per_hold [of WS_ADD initial_globals 1000 5000 0 5010 7000 7010]
  by (simp add: initial_globals_def)

section \<open>The sums never go below zero\<close>

text \<open>
  Claim C6. If both sums are at least 0, they are at least 0 after any run of ticks,
  whatever the hardware returns (or fails to return) and whatever the clock shows. A
  subtract block that finds its sum at 0 leaves it at 0.
\<close>

theorem sums_never_negative:
  assumes "0 \<le> sum_ohb st" and "0 \<le> sum_ws st"
  shows "0 \<le> sum_ohb (run_ticks cfg ticks st) \<and> 0 \<le> sum_ws (run_ticks cfg ticks st)
       \<and> (if sum_ohb st = 0 then sum_ohb (ohb_sub_block delay s now_ms st) = 0
           else 0 \<le> sum_ohb (ohb_sub_block delay s now_ms st))
       \<and> (if sum_ws st = 0 then sum_ws (ws_sub_block delay s now_ms st) = 0
           else 0 \<le> sum_ws (ws_sub_block delay s now_ms st))"
proof -
  have a: "0 \<le> sum_ohb (run_ticks cfg ticks st) \<and> 0 \<le> sum_ws (run_ticks cfg ticks st)"
    by (rule run_ticks_nonneg [OF assms])
  have b: "sum_ohb st = 0 \<Longrightarrow> sum_ohb (ohb_sub_block delay s now_ms st) = 0"
    by (simp add: ohb_sub_block_def Let_def)
  have c: "sum_ws st = 0 \<Longrightarrow> sum_ws (ws_sub_block delay s now_ms st) = 0"
    by (simp add: ws_sub_block_def Let_def)
  from a b c assms show ?thesis by (simp add: blocks_nonneg)
qed

theorem sums_never_negative_witness:
  "0 \<le> sum_ohb initial_globals \<and> 0 \<le> sum_ws initial_globals
   \<and> 0 \<le> sum_ohb (run_ticks default_config
        [(hw_reads 0 1 0 1, 5000), (hw_reads 0 0 0 0, 5010), (hw_reads 1 0 0 1, 7000)]
        initial_globals)
   \<and> 0 \<le> sum_ws (run_ticks default_config
        [(hw_reads 0 1 0 1, 5000), (hw_reads 0 0 0 0, 5010), (hw_reads 1 0 0 1, 7000)]
        initial_globals)
   \<and> sum_ohb initial_globals = 0
   \<and> sum_ohb (ohb_sub_block 1000 1 5000 initial_globals) = 0
   \<and> sum_ws initial_globals = 0
   \<and> sum_ws (ws_sub_block 1000 1 5000 initial_globals) = 0"
  using sums_never_negative [of initial_globals default_config
          "[(hw_reads 0 1 0 1, 5000), (hw_reads 0 0 0 0, 5010), (hw_reads 1 0 0 1, 7000)]"
          1000 1 5000]
  by (simp add: initial_globals_def)

section \<open>Notifying the display of changes only\<close>

text \<open>
  Before the first tick that reads its inputs, the values remembered as displayed are
  the sentinel \<open>- 1\<close>, which no sum ever equals. A tick whose read fails there makes no
  call although total and sums (all 0) differ from what is remembered; and when the
  next tick reads idle inputs, it ends with the same total and sums as the failed one
  and yet makes all three calls.
\<close>

theorem failed_first_tick_then_three_calls:
  "ui_calls (snd (read_inputs_and_update default_config hw_fails 5000 initial_globals)) = []
   \<and> triple (fst (read_inputs_and_update default_config hw_fails 5000 initial_globals))
       = (0, 0, 0)
   \<and> displayed initial_globals = (- 1, - 1, - 1)
   \<and> triple (fst (read_inputs_and_update default_config (hw_reads 0 0 0 0) 5010
        (fst (read_inputs_and_update default_config hw_fails 5000 initial_globals))))
       = (0, 0, 0)
   \<and> ui_calls (snd (read_inputs_and_update default_config (hw_reads 0 0 0 0) 5010
        (fst (read_inputs_and_update default_config hw_fails 5000 initial_globals))))
       = [Total_set_value 0, Ohb_set_value 0, Ws_set_value 0]"
  by (simp add: tick_failed tick_ok read_channels_hw_fails read_channels_hw_reads
        update_ui_eq after_blocks_def block_defs triple_def displayed_def changed_values_def
        initial_globals_def)

text \<open>
  Claim C7, amended. A tick whose read succeeds calls set-value for exactly those of
  total, overhead buffer sum and wet section sum that differ from the value remembered
  as displayed (the last one handed to the display, or the sentinel before any), each
  once and in this order, and afterwards the remembered values are the current ones. A
  tick whose read fails makes no call and changes nothing. Hence from any state in which
  the remembered values are the current ones, which is every state after the first
  successful read, every tick calls set-value for exactly the values it changed, and
  makes no call at all exactly when total and sums are what they were.
\<close>

theorem change_only_notification:
  assumes "read_inputs_and_update cfg rel now_ms st = (st', out)"
  shows "(if isl (read_channels rel)
          then ui_calls out = [] \<and> st' = st
          else ui_calls out = changed_values (displayed st) (triple st') \<and> reported st')
       \<and> (reported st \<longrightarrow>
            ui_calls out = changed_values (triple st) (triple st') \<and> reported st'
            \<and> ((ui_calls out = []) = (triple st' = triple st)))"
proof (cases "read_channels rel")
  case (Inl e)
  then have f: "isl (read_channels rel)" by simp
  from assms have "st' = st" "ui_calls out = []"
    by (auto simp: tick_failed [OF f])
  then show ?thesis using f by (simp add: changed_values_same)
next
  case (Inr ss)
  from assms have st': "st' = fst (update_ui (after_blocks (SENSOR_DELAY cfg) ss now_ms st))"
    and out: "ui_calls out = fst (snd (update_ui (after_blocks (SENSOR_DELAY cfg) ss now_ms st)))"
    by (auto simp: tick_ok [OF Inr])
  have t: "triple st' = triple (after_blocks (SENSOR_DELAY cfg) ss now_ms st)"
    by (simp add: st' update_ui_triple)
  have c: "ui_calls out = changed_values (displayed st) (triple st')"
    by (simp add: out update_ui_calls after_blocks_displayed t)
  have r: "reported st'" by (simp add: st' update_ui_reported)
  show ?thesis using Inr c r by (auto simp: reported_def changed_values_Nil)
qed

text \<open>
  The first tick sees the overhead buffer add input active and reports all three
  values; the second sees it still active, changes nothing and makes no call.
\<close>

theorem change_only_notification_witness:
  "\<not> isl (read_channels (hw_reads 1 0 0 0))
   \<and> read_inputs_and_update default_config (hw_reads 1 0 0 0) 5000 initial_globals
       = (initial_globals\<lparr>sum_ohb := 1, prev_total := 1, prev_ohb := 1, prev_ws := 0,
            sig_ohb_add_detected := True\<rparr>,
          \<lparr> ui_calls = [Total_set_value 1, Ohb_set_value 1, Ws_set_value 0], after_ms = 10 \<rparr>)
   \<and> reported (initial_globals\<lparr>sum_ohb := 1, prev_total := 1, prev_ohb := 1, prev_ws := 0,
            sig_ohb_add_detected := True\<rparr>)
   \<and> read_inputs_and_update default_config (hw_reads 1 0 0 0) 5010
        (initial_globals\<lparr>sum_ohb := 1, prev_total := 1, prev_ohb := 1, prev_ws := 0,
            sig_ohb_add_detected := True\<rparr>)
       = (initial_globals\<lparr>sum_ohb := 1, prev_total := 1, prev_ohb := 1, prev_ws := 0,
            sig_ohb_add_detected := True\<rparr>,
          \<lparr> ui_calls = [], after_ms = 10 \<rparr>)"
  using change_only_notification [of default_config "hw_reads 1 0 0 0" 5000 initial_globals
      "initial_globals\<lparr>sum_ohb := 1, prev_total := 1, prev_ohb := 1, prev_ws := 0,
            sig_ohb_add_detected := True\<rparr>"
      "\<lparr> ui_calls = [Total_set_value 1, Ohb_set_value 1, Ws_set_value 0], after_ms = 10 \<rparr>"]
    change_only_notification [of default_config "hw_reads 1 0 0 0" 5010
      "initial_globals\<lparr>sum_ohb := 1, prev_total := 1, prev_ohb := 1, prev_ws := 0,
            sig_ohb_add_detected := True\<rparr>"
      "initial_globals\<lparr>sum_ohb := 1, prev_total := 1, prev_ohb := 1, prev_ws := 0,
            sig_ohb_add_detected := True\<rparr>"
      "\<lparr> ui_calls = [], after_ms = 10 \<rparr>"]
  by (simp add: read_channels_hw_reads tick_ok update_ui_eq reported_def
        after_blocks_def block_defs triple_def displayed_def changed_values_def
        initial_globals_def default_config_def)

section \<open>The held flag follows the last sample\<close>

text \<open>
  Claim C8. After a block has processed a sample, its channel is held exactly when that
  sample was active (read as 1), whatever the state before; so it is after any
  sequence of samples, with regard to the last one; and so it is for all four flags
  after a tick that read its inputs.
\<close>

theorem held_iff_last_sample_active:
  "detected c (block c delay s now_ms st) = (s = 1)
   \<and> detected c (feed c delay (samples @ [(s, now_ms)]) st) = (s = 1)
   \<and> (read_channels rel = Inr (s1, s2, s3, s4) \<longrightarrow>
        sig_ohb_add_detected (fst (read_inputs_and_update cfg rel now_ms st)) = (s1 = 1)
      \<and> sig_ohb_sub_detected (fst (read_inputs_and_update cfg rel now_ms st)) = (s2 = 1)
      \<and> sig_ws_add_detected (fst (read_inputs_and_update cfg rel now_ms st)) = (s3 = 1)
      \<and> sig_ws_sub_detected (fst (read_inputs_and_update cfg rel now_ms st)) = (s4 = 1))"
  by (simp add: detected_block feed_append tick_ok update_ui_frame after_blocks_flags)

theorem held_iff_last_sample_active_witness:
  "detected WS_SUB (block WS_SUB 1000 1 5000 initial_globals)
   \<and> \<not> detected WS_SUB (feed WS_SUB 1000 ([(1, 5000), (1, 5010)] @ [(0, 5020)]) initial_globals)
   \<and> read_channels (hw_reads 1 0 2 1) = Inr (1, 0, 2, 1)
   \<and> sig_ohb_add_detected (fst (read_inputs_and_update default_config (hw_reads 1 0 2 1) 5000
        initial_globals))
   \<and> \<not> sig_ohb_sub_detected (fst (read_inputs_and_update default_config (hw_reads 1 0 2 1) 5000
        initial_globals))
   \<and> \<not> sig_ws_add_detected (fst (read_inputs_and_update default_config (hw_reads 1 0 2 1) 5000
        initial_globals))
   \<and> sig_ws_sub_detected (fst (read_inputs_and_update default_config (hw_reads 1 0 2 1) 5000
        initial_globals))"
  using held_iff_last_sample_active
          [of WS_SUB 1000 1 5000 initial_globals "[]" "hw_reads 1 0 2 1" 1 0 2 1 default_config]
        held_iff_last_sample_active
          [of WS_SUB 1000 0 5020 initial_globals "[(1, 5000), (1, 5010)]"]
  by (simp add: read_channels_hw_reads)

section \<open>Backing off after a failed read\<close>

text \<open>
  The delay after a failed read is \<^verbatim>\<open>max(200, POLL_INTERVAL_MS)\<close>. With the poll
  interval configured at 500 this is 500, the very delay a successful tick hands to the
  scheduler: the failed tick then waits the normal poll interval, not another delay.
\<close>

theorem failed_read_waits_poll_interval_of_500:
  "isl (hw_fails CHANNEL_OHB_ADD)
   \<and> POLL_INTERVAL_MS (default_config\<lparr>POLL_INTERVAL_MS := 500\<rparr>) = 500
   \<and> after_ms (snd (read_inputs_and_update (default_config\<lparr>POLL_INTERVAL_MS := 500\<rparr>)
        hw_fails 5000 initial_globals)) = 500
   \<and> after_ms (snd (read_inputs_and_update (default_config\<lparr>POLL_INTERVAL_MS := 500\<rparr>)
        (hw_reads 0 0 0 0) 5000 initial_globals)) = 500"
  by (simp add: hw_fails_def default_config_def tick_failed tick_ok
        read_channels_hw_fails read_channels_hw_reads)

text \<open>
  Claim C9, amended. When any of the four reads raises, the delay handed to the
  scheduler is the larger of 200 and the poll interval, hence at least 200 ms, for
  every poll interval and in both scripts. A tick that read its inputs hands over the
  poll interval itself. So the delay after a failed read differs from the normal poll
  interval exactly when the poll interval is below 200 ms; from 200 ms on the two are
  the same.
\<close>

theorem failure_backoff:
  assumes "isl (rel CHANNEL_OHB_ADD) \<or> isl (rel CHANNEL_OHB_SUB)
           \<or> isl (rel CHANNEL_WS_ADD) \<or> isl (rel CHANNEL_WS_SUB)"
  shows "after_ms (snd (read_inputs_and_update cfg rel now_ms st))
           = max 200 (POLL_INTERVAL_MS cfg)
       \<and> 200 \<le> after_ms (snd (read_inputs_and_update cfg rel now_ms st))
       \<and> after_ms (snd (test_read_inputs_and_update tcfg rel now_ms now_ts st))
           = max 200 (POLL_INTERVAL_MS tcfg)
       \<and> 200 \<le> after_ms (snd (test_read_inputs_and_update tcfg rel now_ms now_ts st))
       \<and> (\<not> isl (read_channels rel') \<longrightarrow>
            after_ms (snd (read_inputs_and_update cfg rel' now_ms' st')) = POLL_INTERVAL_MS cfg
          \<and> after_ms (snd (test_read_inputs_and_update tcfg rel' now_ms' now_ts' st'))
              = POLL_INTERVAL_MS tcfg
          \<and> (after_ms (snd (read_inputs_and_update cfg rel now_ms st))
                \<noteq> after_ms (snd (read_inputs_and_update cfg rel' now_ms' st')))
              = (POLL_INTERVAL_MS cfg < 200)
          \<and> (after_ms (snd (test_read_inputs_and_update tcfg rel now_ms now_ts st))
                \<noteq> after_ms (snd (test_read_inputs_and_update tcfg rel' now_ms' now_ts' st')))
              = (POLL_INTERVAL_MS tcfg < 200))"
proof -
  from assms have f: "isl (read_channels rel)" by (simp add: read_channels_fails)
  have ok: "after_ms (snd (read_inputs_and_update cfg rel' now_ms' st')) = POLL_INTERVAL_MS cfg
          \<and> after_ms (snd (test_read_inputs_and_update tcfg rel' now_ms' now_ts' st'))
              = POLL_INTERVAL_MS tcfg"
    if "\<not> isl (read_channels rel')"
  proof -
    from that obtain ss where r: "read_channels rel' = Inr ss"
      by (cases "read_channels rel'") auto
    obtain s1 s2 s3 s4 where ss: "ss = (s1, s2, s3, s4)" by (cases ss)
    show ?thesis
      using r by (simp add: tick_ok ss test_tick_ok Let_def)
  qed
  show ?thesis
    using ok by (auto simp: tick_failed [OF f] test_tick_failed [OF f])
qed

text \<open>
  With the poll interval at 10 the failed tick waits 200 ms where a successful one
  waits 10; with the poll interval at 500 both wait 500.
\<close>

theorem failure_backoff_witness:
  "isl (hw_fails CHANNEL_OHB_ADD) \<and> \<not> isl (read_channels (hw_reads 0 0 0 0))
   \<and> after_ms (snd (read_inputs_and_update default_config hw_fails 5000 initial_globals)) = 200
   \<and> after_ms (snd (test_read_inputs_and_update default_test_config hw_fails 5000 5
        initial_globals)) = 200
   \<and> after_ms (snd (read_inputs_and_update default_config (hw_reads 0 0 0 0) 5010
        initial_globals)) = 10
   \<and> after_ms (snd (test_read_inputs_and_update default_test_config (hw_reads 0 0 0 0) 5010 5
        initial_globals)) = 10
   \<and> POLL_INTERVAL_MS default_config < 200
   \<and> after_ms (snd (read_inputs_and_update (default_config\<lparr>POLL_INTERVAL_MS := 500\<rparr>) hw_fails
        5000 initial_globals)) = 500
   \<and> after_ms (snd (read_inputs_and_update (default_config\<lparr>POLL_INTERVAL_MS := 500\<rparr>)
        (hw_reads 0 0 0 0) 5010 initial_globals)) = 500
   \<and> \<not> POLL_INTERVAL_MS (default_config\<lparr>POLL_INTERVAL_MS := 500\<rparr>) < 200"
  using failure_backoff [where rel = hw_fails and rel' = "hw_reads 0 0 0 0"
          and cfg = default_config and tcfg = default_test_config
          and now_ms = 5000 and now_ts = 5 and st = initial_globals
          and now_ms' = 5010 and now_ts' = 5 and st' = initial_globals]
        failure_backoff [where rel = hw_fails and rel' = "hw_reads 0 0 0 0"
          and cfg = "default_config\<lparr>POLL_INTERVAL_MS := 500\<rparr>" and tcfg = default_test_config
          and now_ms = 5000 and now_ts = 5 and st = initial_globals
          and now_ms' = 5010 and now_ts' = 5 and st' = initial_globals]
  by (simp add: hw_fails_def default_config_def default_test_config_def
        read_channels_hw_reads)

section \<open>The order of the four blocks within a tick\<close>

text \<open>
  Claim C10. A tick that read its inputs runs the blocks in the order overhead buffer
  add, overhead buffer subtract, wet section add, wet section subtract, then updates the
  display. So when the overhead buffer sum is 0 and both its inputs are counted in the
  same tick, the tick ends with the sum at 0: plus one, then minus one. In the other
  order the subtraction would find 0 and the sum would end at 1. Likewise for the wet
  section.
\<close>

theorem add_block_runs_before_sub_block:
  assumes "read_channels rel = Inr (s1, s2, s3, s4)"
  shows "fst (read_inputs_and_update cfg rel now_ms st) =
           fst (update_ui
             (ws_sub_block (SENSOR_DELAY cfg) s4 now_ms
               (ws_add_block (SENSOR_DELAY cfg) s3 now_ms
                 (ohb_sub_block (SENSOR_DELAY cfg) s2 now_ms
                   (ohb_add_block (SENSOR_DELAY cfg) s1 now_ms st)))))
       \<and> (s1 = 1 \<and> s2 = 1 \<and> \<not> sig_ohb_add_detected st \<and> \<not> sig_ohb_sub_detected st
            \<and> SENSOR_DELAY cfg \<le> now_ms - timer_ohb_add st
            \<and> SENSOR_DELAY cfg \<le> now_ms - timer_ohb_sub st
            \<and> sum_ohb st = 0
          \<longrightarrow> sum_ohb (fst (read_inputs_and_update cfg rel now_ms st)) = 0
            \<and> sum_ohb (ohb_add_block (SENSOR_DELAY cfg) s1 now_ms
                 (ohb_sub_block (SENSOR_DELAY cfg) s2 now_ms st)) = 1)
       \<and> (s3 = 1 \<and> s4 = 1 \<and> \<not> sig_ws_add_detected st \<and> \<not> sig_ws_sub_detected st
            \<and> SENSOR_DELAY cfg \<le> now_ms - timer_ws_add st
            \<and> SENSOR_DELAY cfg \<le> now_ms - timer_ws_sub st
            \<and> sum_ws st = 0
          \<longrightarrow> sum_ws (fst (read_inputs_and_update cfg rel now_ms st)) = 0
            \<and> sum_ws (ws_add_block (SENSOR_DELAY cfg) s3 now_ms
                 (ws_sub_block (SENSOR_DELAY cfg) s4 now_ms st)) = 1)"
proof -
  have a: "s1 = 1 \<Longrightarrow> s2 = 1 \<Longrightarrow> \<not> sig_ohb_add_detected st \<Longrightarrow> \<not> sig_ohb_sub_detected st
       \<Longrightarrow> SENSOR_DELAY cfg \<le> now_ms - timer_ohb_add st
       \<Longrightarrow> SENSOR_DELAY cfg \<le> now_ms - timer_ohb_sub st \<Longrightarrow> sum_ohb st = 0
       \<Longrightarrow> sum_ohb (ohb_sub_block (SENSOR_DELAY cfg) s2 now_ms
              (ohb_add_block (SENSOR_DELAY cfg) s1 now_ms st)) = 0
         \<and> sum_ohb (ohb_add_block (SENSOR_DELAY cfg) s1 now_ms
              (ohb_sub_block (SENSOR_DELAY cfg) s2 now_ms st)) = 1"
    by (simp add: ohb_add_block_def ohb_sub_block_def Let_def)
  have b: "s3 = 1 \<Longrightarrow> s4 = 1 \<Longrightarrow> \<not> sig_ws_add_detected st \<Longrightarrow> \<not> sig_ws_sub_detected st
       \<Longrightarrow> SENSOR_DELAY cfg \<le> now_ms - timer_ws_add st
       \<Longrightarrow> SENSOR_DELAY cfg \<le> now_ms - timer_ws_sub st \<Longrightarrow> sum_ws st = 0
       \<Longrightarrow> sum_ws (ws_sub_block (SENSOR_DELAY cfg) s4 now_ms
              (ws_add_block (SENSOR_DELAY cfg) s3 now_ms
                (ohb_sub_block (SENSOR_DELAY cfg) s2 now_ms
                  (ohb_add_block (SENSOR_DELAY cfg) s1 now_ms st)))) = 0
         \<and> sum_ws (ws_add_block (SENSOR_DELAY cfg) s3 now_ms
              (ws_sub_block (SENSOR_DELAY cfg) s4 now_ms st)) = 1"
    by (simp add: block_defs Let_def)
  show ?thesis
    using a b
    by (simp add: tick_ok [OF assms] after_blocks_def update_ui_frame block_other_sum)
qed

theorem add_block_runs_before_sub_block_witness:
  "read_channels (hw_reads 1 1 1 1) = Inr (1, 1, 1, 1)
   \<and> \<not> sig_ohb_add_detected initial_globals \<and> \<not> sig_ohb_sub_detected initial_globals
   \<and> SENSOR_DELAY default_config \<le> 5000 - timer_ohb_add initial_globals
   \<and> SENSOR_DELAY default_config \<le> 5000 - timer_ohb_sub initial_globals
   \<and> sum_ohb initial_globals = 0
   \<and> sum_ohb (fst (read_inputs_and_update default_config (hw_reads 1 1 1 1) 5000
        initial_globals)) = 0
   \<and> \<not> sig_ws_add_detected initial_globals \<and> \<not> sig_ws_sub_detected initial_globals
   \<and> SENSOR_DELAY default_config \<le> 5000 - timer_ws_add initial_globals
   \<and> SENSOR_DELAY default_config \<le> 5000 - timer_ws_sub initial_globals
   \<and> sum_ws initial_globals = 0
   \<and> sum_ws (fst (read_inputs_and_update default_config (hw_reads 1 1 1 1) 5000
        initial_globals)) = 0"
  using add_block_runs_before_sub_block
          [of "hw_reads 1 1 1 1" 1 1 1 1 default_config 5000 initial_globals]
  by (simp add: read_channels_hw_reads initial_globals_def default_config_def
        update_ui_frame block_defs Let_def)

end
